theory Spec2Isabelle
  imports Complex_Main "HOL-Library.Sublist"
begin

section \<open>ScreenPro2: the run registry of \<open>PooledScreens\<close> (screenpro/assays.py)\<close>

text \<open>
  The class \<open>PooledScreens\<close> keeps two pieces of registry state: the dictionary
  \<open>phenotypes\<close> (run name to a bundle of score tables) and the list
  \<open>phenotype_names\<close> (every score name registered so far). Its methods mutate the
  object in place and raise exceptions; the model passes the object explicitly and
  returns, for every method, the exception (if any) together with the object as the
  method leaves it, so that a change made before a \<open>raise\<close> stays visible.
  Doubling rates are Python floats and are modelled as binary64 values, with their
  rounding, infinities and NaN.

  The two helpers \<open>runPhenoScore\<close> (screenpro/phenoscore.py) and
  \<open>ann_score_df\<close> (screenpro/utils.py) are imported by assays.py from other
  modules of the package. The methods take them as parameters, so that what is proved
  of a method holds whatever the helpers compute.
\<close>

subsection \<open>Exceptions\<close>

text \<open>\<open>ValueError\<close> carries its message; \<open>KeyError\<close> carries the key or label that
  was not found.\<close>

datatype error =
    ValueError string
  | KeyError string
  | TypeError string
  | OtherError string

definition quoted :: "string \<Rightarrow> string" where
  "quoted x = CHR 0x27 # x @ [CHR 0x27]"

definition already_exists :: "string \<Rightarrow> error" where
  "already_exists phenotype_name =
     ValueError (''Phenotype '' @ quoted phenotype_name @ '' already exists in self.phenotype_names!'')"

definition not_found :: "string \<Rightarrow> error" where
  "not_found score_name =
     ValueError (''Phenotype '' @ quoted score_name @ '' not found in self.phenotype_names'')"

subsection \<open>Floating-point numbers\<close>

text \<open>
  A Python float is an IEEE binary64 value: a NaN, an infinity with its sign, or a
  finite number, kept here as sign, mantissa and exponent and standing for
  \<open>\<plusminus> m * 2 ^ e\<close> (the sign is \<open>True\<close> for minus, and a zero has a sign). The source
  subtracts two floats and takes the absolute value (\<open>np.abs\<close>); equal rates are
  rates that compare equal (\<open>==\<close>). Subtraction forms the exact difference and rounds it to
  nearest, ties to even, to 53 bits of mantissa with no exponent below \<open>-1074\<close>; a
  rounded magnitude of \<open>2 ^ 1024\<close> or more is an infinity; an exact zero is \<open>+0\<close>
  unless it is \<open>(-0) - (+0)\<close>.
\<close>

datatype float64 = Finite bool nat int | Infinity bool | NaN

fun bit_length :: "nat \<Rightarrow> nat" where
  "bit_length n = (if n = 0 then 0 else Suc (bit_length (n div 2)))"

declare bit_length.simps [simp del]

definition signed :: "bool \<Rightarrow> nat \<Rightarrow> int" where
  "signed neg m = (if neg then - int m else int m)"

text \<open>The exact difference of two finite values, as an integer multiple of a power of
  two: the pair \<open>(d, e)\<close> stands for \<open>d * 2 ^ e\<close>.\<close>

definition exact_diff :: "bool \<Rightarrow> nat \<Rightarrow> int \<Rightarrow> bool \<Rightarrow> nat \<Rightarrow> int \<Rightarrow> int \<times> int" where
  "exact_diff s1 m1 e1 s2 m2 e2 =
     (let e = min e1 e2
      in (signed s1 m1 * 2 ^ nat (e1 - e) - signed s2 m2 * 2 ^ nat (e2 - e), e))"

definition round_to_float :: "bool \<Rightarrow> nat \<Rightarrow> int \<Rightarrow> float64" where
  "round_to_float neg m e =
     (let k = max (int (bit_length m) - 53) (- 1074 - e);
          d = 2 ^ nat k; q = m div d; r = m mod d;
          m' = (if k \<le> 0 then m
                else if d < 2 * r \<or> (2 * r = d \<and> odd q) then q + 1 else q);
          e' = (if k \<le> 0 then e else e + k)
      in if 1024 < int (bit_length m') + e' then Infinity neg else Finite neg m' e')"

fun fl_sub :: "float64 \<Rightarrow> float64 \<Rightarrow> float64" where
  "fl_sub NaN y = NaN"
| "fl_sub x NaN = NaN"
| "fl_sub (Infinity a) (Infinity b) = (if a = b then NaN else Infinity a)"
| "fl_sub (Infinity a) (Finite s2 m2 e2) = Infinity a"
| "fl_sub (Finite s1 m1 e1) (Infinity b) = Infinity (\<not> b)"
| "fl_sub (Finite s1 m1 e1) (Finite s2 m2 e2) =
     (case exact_diff s1 m1 e1 s2 m2 e2 of
        (d, e) \<Rightarrow> if d = 0 then Finite (s1 \<and> \<not> s2) 0 0
                  else round_to_float (d < 0) (nat \<bar>d\<bar>) e)"

fun fl_abs :: "float64 \<Rightarrow> float64" where
  "fl_abs (Finite s m e) = Finite False m e"
| "fl_abs (Infinity a) = Infinity False"
| "fl_abs NaN = NaN"

text \<open>\<open>x == y\<close>: numeric equality; the two zeros are equal, a NaN equals nothing.\<close>

fun fl_eq :: "float64 \<Rightarrow> float64 \<Rightarrow> bool" where
  "fl_eq (Finite s1 m1 e1) (Finite s2 m2 e2) = (fst (exact_diff s1 m1 e1 s2 m2 e2) = 0)"
| "fl_eq (Infinity a) (Infinity b) = (a = b)"
| "fl_eq x y = False"

fun is_finite :: "float64 \<Rightarrow> bool" where
  "is_finite (Finite s m e) = True"
| "is_finite x = False"

definition fl_zero :: float64 where
  "fl_zero = Finite False 0 0"

text \<open>The float of a natural number below \<open>2 ^ 53\<close>.\<close>

definition float_of_nat :: "nat \<Rightarrow> float64" where
  "float_of_nat n = Finite False n 0"

subsection \<open>Tables\<close>

text \<open>
  A pandas data frame, as far as assays.py touches it: a row index with an optional
  name, and the columns in order, each a label with its cells. The bundle stored under
  a run name is what \<open>pd.concat({label: table, ...}, axis=1)\<close> builds: the tables
  side by side under their labels, in the order of the dictionary. (The tables of one
  call come from the same matrix and score level; the row alignment of \<open>concat\<close>
  is the identity on them.)
\<close>

datatype cell = Str string | Num real | Bool bool | Tuple "cell list"

record frame =
  index_name :: "string option"
  index_vals :: "cell list"
  columns :: "(string \<times> cell list) list"

type_synonym phenotype_result = "(string \<times> frame) list"

definition column_labels :: "frame \<Rightarrow> string list" where
  "column_labels df = map fst (columns df)"

text \<open>\<open>df.loc[:, keep_col]\<close>: the columns named by the list, in its order; a label that
  is not a column raises \<open>KeyError\<close>.\<close>

definition loc_columns :: "string list \<Rightarrow> frame \<Rightarrow> error + frame" where
  "loc_columns keep_col df =
     (case filter (\<lambda>k. k \<notin> set (column_labels df)) keep_col of
        k # _ \<Rightarrow> Inl (KeyError k)
      | [] \<Rightarrow> Inr (df\<lparr>columns :=
                 concat (map (\<lambda>k. filter (\<lambda>c. fst c = k) (columns df)) keep_col)\<rparr>))"

text \<open>\<open>df.set_index(label)\<close>: the column becomes the row index and leaves the columns;
  a missing label raises \<open>KeyError\<close>. When the label names several columns, nothing
  is raised: all of them leave the columns and each row is indexed by the tuple of its
  cells in them.\<close>

definition set_index :: "string \<Rightarrow> frame \<Rightarrow> error + frame" where
  "set_index label df =
     (case filter (\<lambda>c. fst c = label) (columns df) of
        [] \<Rightarrow> Inl (KeyError label)
      | [c] \<Rightarrow> Inr (df\<lparr>index_name := Some label, index_vals := snd c,
                       columns := filter (\<lambda>c. fst c \<noteq> label) (columns df)\<rparr>)
      | c # c' # cs \<Rightarrow>
          Inr (df\<lparr>index_name := Some label,
                 index_vals := map Tuple (transpose (map snd (c # c' # cs))),
                 columns := filter (\<lambda>c. fst c \<noteq> label) (columns df)\<rparr>))"

text \<open>\<open>df.rename(columns={old: new})\<close>: every column labelled \<open>old\<close> is relabelled;
  nothing is raised when there is none.\<close>

definition rename_column :: "string \<Rightarrow> string \<Rightarrow> frame \<Rightarrow> frame" where
  "rename_column old new df =
     df\<lparr>columns := map (\<lambda>c. (if fst c = old then new else fst c, snd c)) (columns df)\<rparr>"

subsection \<open>The screen object\<close>

record 'a PooledScreens =
  adata :: 'a
  transformation :: string
  test :: string
  n_reps :: int
  phenotypes :: "string \<rightharpoonup> phenotype_result"
  phenotype_names :: "string list"

text \<open>\<open>__init__\<close>, with its keyword defaults written out by \<open>new_screen\<close>.\<close>

definition init :: "'a \<Rightarrow> string \<Rightarrow> string \<Rightarrow> int \<Rightarrow> 'a PooledScreens" where
  "init a tr te n =
     \<lparr>adata = a, transformation = tr, test = te, n_reps = n,
      phenotypes = Map.empty, phenotype_names = []\<rparr>"

definition new_screen :: "'a \<Rightarrow> 'a PooledScreens" where
  "new_screen a = init a ''log2(x+1)'' ''ttest'' 3"

text \<open>The arguments of one call of \<open>runPhenoScore\<close>, after the matrix. The growth rate
  is \<open>None\<close> when the caller leaves the keyword out.\<close>

record core_call =
  cond1 :: string
  cond2 :: string
  growth_rate :: "float64 option"
  call_n_reps :: int
  call_transformation :: string
  call_test :: string
  score_level :: string

type_synonym 'a pheno_score = "'a \<Rightarrow> core_call \<Rightarrow> error + string \<times> frame"

type_synonym annotator = "frame \<Rightarrow> string \<Rightarrow> real \<Rightarrow> error + frame"

text \<open>\<open>_add_phenotype_results\<close>\<close>

definition add_phenotype_results ::
  "string \<Rightarrow> 'a PooledScreens \<Rightarrow> error option \<times> 'a PooledScreens" where
  "add_phenotype_results phenotype_name s =
     (if phenotype_name \<in> set (phenotype_names s)
      then (Some (already_exists phenotype_name), s)
      else (None, s\<lparr>phenotype_names := phenotype_names s @ [phenotype_name]\<rparr>))"

text \<open>\<open>if not run_name: run_name = score_level\<close>: \<open>None\<close> and the empty string are
  both false.\<close>

definition default_run_name :: "string option \<Rightarrow> string \<Rightarrow> string" where
  "default_run_name run_name lvl =
     (case run_name of None \<Rightarrow> lvl | Some r \<Rightarrow> if r = [] then lvl else r)"

text \<open>The three calls of \<open>runPhenoScore\<close> in \<open>calculateDrugScreen\<close> and the one in
  \<open>calculateFlowBasedScreen\<close>, as the source writes their arguments.\<close>

definition gamma_call ::
  "'a PooledScreens \<Rightarrow> string \<Rightarrow> string \<Rightarrow> float64 \<Rightarrow> string \<Rightarrow> core_call" where
  "gamma_call s t0 untreated db_untreated lvl =
     \<lparr>cond1 = t0, cond2 = untreated, growth_rate = Some db_untreated,
      call_n_reps = n_reps s, call_transformation = transformation s,
      call_test = test s, score_level = lvl\<rparr>"

definition tau_call ::
  "'a PooledScreens \<Rightarrow> string \<Rightarrow> string \<Rightarrow> float64 \<Rightarrow> string \<Rightarrow> core_call" where
  "tau_call s t0 treated db_treated lvl =
     \<lparr>cond1 = t0, cond2 = treated, growth_rate = Some db_treated,
      call_n_reps = n_reps s, call_transformation = transformation s,
      call_test = test s, score_level = lvl\<rparr>"

definition rho_call ::
  "'a PooledScreens \<Rightarrow> string \<Rightarrow> string \<Rightarrow> float64 \<Rightarrow> float64 \<Rightarrow> string \<Rightarrow> core_call" where
  "rho_call s untreated treated db_untreated db_treated lvl =
     \<lparr>cond1 = untreated, cond2 = treated,
      growth_rate = Some (fl_abs (fl_sub db_untreated db_treated)),
      call_n_reps = n_reps s, call_transformation = transformation s,
      call_test = test s, score_level = lvl\<rparr>"

definition delta_call :: "'a PooledScreens \<Rightarrow> string \<Rightarrow> string \<Rightarrow> string \<Rightarrow> core_call" where
  "delta_call s low_bin high_bin lvl =
     \<lparr>cond1 = low_bin, cond2 = high_bin, growth_rate = None,
      call_n_reps = n_reps s, call_transformation = transformation s,
      call_test = test s, score_level = lvl\<rparr>"

text \<open>
  A scoring method returns the calls of \<open>runPhenoScore\<close> it made, in order, the
  exception it raised (\<open>None\<close> when it returned) and the object afterwards. An
  exception of \<open>runPhenoScore\<close> passes through the method. Every call of
  \<open>runPhenoScore\<close> goes through \<open>traced\<close>, which applies the function and enters
  the very arguments it applied it to in the list of calls.
\<close>

type_synonym 'a scoring_result = "core_call list \<times> error option \<times> 'a PooledScreens"

definition traced ::
  "'a pheno_score \<Rightarrow> 'a \<Rightarrow> core_call \<Rightarrow> core_call list
     \<Rightarrow> core_call list \<times> (error + string \<times> frame)" where
  "traced runPhenoScore a c calls = (calls @ [c], runPhenoScore a c)"

definition calculateDrugScreen ::
  "'a pheno_score \<Rightarrow> string \<Rightarrow> string \<Rightarrow> string \<Rightarrow> float64 \<Rightarrow> float64 \<Rightarrow> string
     \<Rightarrow> string option \<Rightarrow> 'a PooledScreens \<Rightarrow> 'a scoring_result" where
  "calculateDrugScreen runPhenoScore t0 untreated treated db_untreated db_treated lvl run_name s =
     (case traced runPhenoScore (adata s) (gamma_call s t0 untreated db_untreated lvl) [] of
        (calls1, Inl e) \<Rightarrow> (calls1, Some e, s)
      | (calls1, Inr (gamma_name, gamma)) \<Rightarrow>
     (case traced runPhenoScore (adata s) (tau_call s t0 treated db_treated lvl) calls1 of
        (calls2, Inl e) \<Rightarrow> (calls2, Some e, s)
      | (calls2, Inr (tau_name, tau)) \<Rightarrow>
     (case traced runPhenoScore (adata s)
             (rho_call s untreated treated db_untreated db_treated lvl) calls2 of
        (calls3, Inl e) \<Rightarrow> (calls3, Some e, s)
      | (calls3, Inr (rho_name, rho)) \<Rightarrow>
       (let rn = default_run_name run_name lvl;
            s1 = s\<lparr>phenotypes := (phenotypes s)(rn \<mapsto>
                    [(''gamma:'' @ gamma_name, gamma), (''tau:'' @ tau_name, tau),
                     (''rho:'' @ rho_name, rho)])\<rparr>
        in case add_phenotype_results (''gamma:'' @ gamma_name) s1 of
             (Some e, s2) \<Rightarrow> (calls3, Some e, s2)
           | (None, s2) \<Rightarrow>
         (case add_phenotype_results (''tau:'' @ tau_name) s2 of
             (Some e, s3) \<Rightarrow> (calls3, Some e, s3)
           | (None, s3) \<Rightarrow>
         (case add_phenotype_results (''rho:'' @ rho_name) s3 of
             (r, s4) \<Rightarrow> (calls3, r, s4)))))))"

definition calculateFlowBasedScreen ::
  "'a pheno_score \<Rightarrow> string \<Rightarrow> string \<Rightarrow> string \<Rightarrow> string option
     \<Rightarrow> 'a PooledScreens \<Rightarrow> 'a scoring_result" where
  "calculateFlowBasedScreen runPhenoScore low_bin high_bin lvl run_name s =
     (case traced runPhenoScore (adata s) (delta_call s low_bin high_bin lvl) [] of
        (calls, Inl e) \<Rightarrow> (calls, Some e, s)
      | (calls, Inr (delta_name, delta)) \<Rightarrow>
       (let rn = default_run_name run_name lvl;
            s1 = s\<lparr>phenotypes := (phenotypes s)(rn \<mapsto> [(''delta:'' @ delta_name, delta)])\<rparr>
        in case add_phenotype_results (''delta:'' @ delta_name) s1 of
             (r, s2) \<Rightarrow> (calls, r, s2)))"

text \<open>
  \<open>getPhenotypeScores\<close>. The source indexes the dictionary with \<open>run_name\<close> and the
  bundle with \<open>score_name\<close> (each raises \<open>KeyError\<close> on a missing key), keeps the
  three named columns, sets the index to the column labelled \<open>target\<close> (the literal,
  not \<open>target_col\<close>), relabels \<open>pvalue_column\<close> as \<open>pvalue\<close> and hands the table to
  \<open>ann_score_df\<close>. The method assigns to no attribute; the object is returned as it was
  received.
\<close>

definition getPhenotypeScores ::
  "annotator \<Rightarrow> string \<Rightarrow> string \<Rightarrow> real \<Rightarrow> string \<Rightarrow> string \<Rightarrow> string \<Rightarrow> string
     \<Rightarrow> 'a PooledScreens \<Rightarrow> (error + frame) \<times> 'a PooledScreens" where
  "getPhenotypeScores ann_score_df run_name score_name threshold ctrl_label
       target_col pvalue_column score_column s =
     (if score_name \<notin> set (phenotype_names s) then (Inl (not_found score_name), s)
      else
        let keep_col = [target_col, pvalue_column, score_column]
        in case phenotypes s run_name of
             None \<Rightarrow> (Inl (KeyError run_name), s)
           | Some bundle \<Rightarrow>
         (case map_of bundle score_name of
             None \<Rightarrow> (Inl (KeyError score_name), s)
           | Some df \<Rightarrow>
         (case loc_columns keep_col df of
             Inl e \<Rightarrow> (Inl e, s)
           | Inr kept \<Rightarrow>
         (case set_index ''target'' kept of
             Inl e \<Rightarrow> (Inl e, s)
           | Inr indexed \<Rightarrow>
             (ann_score_df (rename_column pvalue_column ''pvalue'' indexed)
                 ctrl_label threshold, s)))))"

text \<open>The call with every keyword left at its default.\<close>

definition getPhenotypeScores_default ::
  "annotator \<Rightarrow> string \<Rightarrow> string \<Rightarrow> 'a PooledScreens \<Rightarrow> (error + frame) \<times> 'a PooledScreens" where
  "getPhenotypeScores_default ann_score_df run_name score_name s =
     getPhenotypeScores ann_score_df run_name score_name 5 ''negCtrl''
       ''target'' ''ttest pvalue'' ''score'' s"

definition calls_made :: "'a scoring_result \<Rightarrow> core_call list" where
  "calls_made r = fst r"

definition raised :: "'a scoring_result \<Rightarrow> error option" where
  "raised r = fst (snd r)"

definition after :: "'a scoring_result \<Rightarrow> 'a PooledScreens" where
  "after r = snd (snd r)"

subsection \<open>The annotator\<close>

text \<open>
  Modelled from the spec: \<open>ann_score_df\<close> lives in screenpro/utils.py, which is not
  part of the module modelled here. The spec (4.6, steps 3 to 5) has it take the table
  indexed by target with the columns \<open>pvalue\<close> and \<open>score\<close>, collect the scores of
  the rows whose target is the control label, standardise every score against the mean
  and the standard deviation of those, and call a target a hit when the absolute
  standardised score reaches the threshold and the p-value is below a significance
  cutoff; the result is the target-indexed table with the columns score, p-value,
  standardised score and hit call. The spec fixes neither the cutoff nor the labels of
  the two new columns, which are parameters here, nor which standard deviation is meant
  (the population one is taken). A missing column is a \<open>KeyError\<close>, a non-numeric
  cell a \<open>TypeError\<close>.
\<close>

fun numbers :: "cell list \<Rightarrow> real list option" where
  "numbers [] = Some []"
| "numbers (Num x # cs) = map_option ((#) x) (numbers cs)"
| "numbers (_ # cs) = None"

definition mean :: "real list \<Rightarrow> real" where
  "mean xs = sum_list xs / real (length xs)"

definition std_dev :: "real list \<Rightarrow> real" where
  "std_dev xs = sqrt (mean (map (\<lambda>x. (x - mean xs)\<^sup>2) xs))"

definition ann_score_df :: "real \<Rightarrow> string \<Rightarrow> string \<Rightarrow> annotator" where
  "ann_score_df cutoff z_label hit_label df ctrl_label threshold =
     (case map_of (columns df) ''score'' of
        None \<Rightarrow> Inl (KeyError ''score'')
      | Some score_cells \<Rightarrow>
     (case map_of (columns df) ''pvalue'' of
        None \<Rightarrow> Inl (KeyError ''pvalue'')
      | Some pvalue_cells \<Rightarrow>
     (case (numbers score_cells, numbers pvalue_cells) of
        (Some scores, Some pvalues) \<Rightarrow>
          (let ctrl = map snd (filter (\<lambda>r. fst r = Str ctrl_label) (zip (index_vals df) scores));
               z = map (\<lambda>x. (x - mean ctrl) / std_dev ctrl) scores;
               hit = map (\<lambda>(zi, p). threshold \<le> \<bar>zi\<bar> \<and> p < cutoff) (zip z pvalues)
           in Inr (df\<lparr>columns :=
                 [(''pvalue'', pvalue_cells), (''score'', score_cells),
                  (z_label, map Num z), (hit_label, map Bool hit)]\<rparr>))
      | _ \<Rightarrow> Inl (TypeError ''could not convert string to float''))))"

subsection \<open>Sample inputs\<close>

text \<open>
  Modelled from the spec: \<open>runPhenoScore\<close> lives in screenpro/phenoscore.py. The spec
  (4.3) gives its result as a name that encodes the two conditions
  (\<open>untreated_vs_treated\<close> in the end-to-end scenario of section 8) and a score table.
  \<open>sample_runPhenoScore\<close> is one such function: it names the score as the scenario
  does and returns the table it is given. It serves to run the methods on concrete
  inputs; every general theorem below is stated for an arbitrary function in its place.
\<close>

definition sample_runPhenoScore :: "frame \<Rightarrow> unit pheno_score" where
  "sample_runPhenoScore tbl a c = Inr (cond1 c @ ''_vs_'' @ cond2 c, tbl)"

text \<open>
  Modelled from the spec: among the errors of \<open>runPhenoScore\<close> the spec (4.3) lists
  the one for a condition that is not in the sample metadata of the matrix.
  \<open>strict_runPhenoScore\<close> raises it for a condition outside the list it is given and
  is \<open>sample_runPhenoScore\<close> otherwise.
\<close>

definition strict_runPhenoScore :: "string list \<Rightarrow> frame \<Rightarrow> unit pheno_score" where
  "strict_runPhenoScore conditions tbl a c =
     (if cond1 c \<in> set conditions \<and> cond2 c \<in> set conditions
      then sample_runPhenoScore tbl a c
      else Inl (OtherError ''MissingConditionError''))"

text \<open>A score table at the level of the guides: two genes and two control guides.\<close>

definition sample_table :: frame where
  "sample_table =
     \<lparr>index_name = None,
      index_vals = [Str ''sg1'', Str ''sg2'', Str ''sg3'', Str ''sg4''],
      columns =
        [(''target'', [Str ''GeneA'', Str ''GeneB'', Str ''negCtrl'', Str ''negCtrl'']),
         (''score'', [Num 3, Num (- 1), Num 1, Num (- 1)]),
         (''ttest pvalue'', [Num (1 / 100), Num (1 / 5), Num (9 / 10), Num (4 / 5)])]\<rparr>"

text \<open>A score table that carries a second column of gene labels beside \<open>target\<close>.\<close>

definition gene_table :: frame where
  "gene_table =
     \<lparr>index_name = None,
      index_vals = [Str ''sg1'', Str ''sg2'', Str ''sg3''],
      columns =
        [(''target'', [Str ''GeneA'', Str ''GeneB'', Str ''negCtrl'']),
         (''gene_symbol'', [Str ''A1'', Str ''B1'', Str ''ctrl'']),
         (''score'', [Num 2, Num (- 1), Num 0]),
         (''ttest pvalue'', [Num (1 / 100), Num (1 / 5), Num (9 / 10)])]\<rparr>"

text \<open>
  \<open>calculateDrugScreen('T0', 'untreated', 'treated', 1.0, 2.0, score_level='sgRNA')\<close>
  on a fresh object (the scenario of the spec), and the object it leaves.
\<close>

definition first_drug_call :: "unit scoring_result" where
  "first_drug_call =
     calculateDrugScreen (sample_runPhenoScore sample_table)
       ''T0'' ''untreated'' ''treated'' (float_of_nat 1) (float_of_nat 2) ''sgRNA'' None
       (new_screen ())"

definition drug_screen_state :: "unit PooledScreens" where
  "drug_screen_state = after first_drug_call"

text \<open>A second drug screen on that object, with another untreated arm and under a run
  name of its own: its gamma and rho names are new, its tau name is registered.\<close>

definition second_drug_call :: "unit scoring_result" where
  "second_drug_call =
     calculateDrugScreen (sample_runPhenoScore sample_table)
       ''T0'' ''vehicle'' ''treated'' (float_of_nat 1) (float_of_nat 2) ''sgRNA''
       (Some ''second'') drug_screen_state"

text \<open>The first drug screen once more, under a new run name.\<close>

definition repeated_drug_call :: "unit scoring_result" where
  "repeated_drug_call =
     calculateDrugScreen (sample_runPhenoScore sample_table)
       ''T0'' ''untreated'' ''treated'' (float_of_nat 1) (float_of_nat 2) ''sgRNA''
       (Some ''again'') drug_screen_state"

text \<open>A flow screen on that object at the same score level, the run name left out.\<close>

definition flow_after_drug :: "unit scoring_result" where
  "flow_after_drug =
     calculateFlowBasedScreen (sample_runPhenoScore sample_table)
       ''low'' ''high'' ''sgRNA'' None drug_screen_state"

text \<open>The same flow screen under the run name \<open>flow\<close>, and the object it leaves, which
  holds two runs.\<close>

definition two_run_state :: "unit PooledScreens" where
  "two_run_state =
     after (calculateFlowBasedScreen (sample_runPhenoScore sample_table)
              ''low'' ''high'' ''sgRNA'' (Some ''flow'') drug_screen_state)"

text \<open>\<open>calculateFlowBasedScreen('low', 'high', score_level='sgRNA')\<close> on a fresh
  object, the score table carrying the extra gene column.\<close>

definition flow_screen_state :: "unit PooledScreens" where
  "flow_screen_state =
     after (calculateFlowBasedScreen (sample_runPhenoScore gene_table)
              ''low'' ''high'' ''sgRNA'' None (new_screen ()))"

text \<open>The drug screen of the scenario on a matrix that has no samples of the
  condition \<open>T0\<close>.\<close>

definition missing_t0_call :: "unit scoring_result" where
  "missing_t0_call =
     calculateDrugScreen (strict_runPhenoScore [''untreated'', ''treated''] sample_table)
       ''T0'' ''untreated'' ''treated'' (float_of_nat 1) (float_of_nat 2) ''sgRNA'' None
       (new_screen ())"

text \<open>The drug screen of the scenario with both doubling rates \<open>float('inf')\<close>.\<close>

definition infinite_rates_call :: "unit scoring_result" where
  "infinite_rates_call =
     calculateDrugScreen (sample_runPhenoScore sample_table)
       ''T0'' ''untreated'' ''treated'' (Infinity False) (Infinity False) ''sgRNA'' None
       (new_screen ())"

subsection \<open>Sequences of scoring calls\<close>

datatype scoring_call =
    DrugScreen string string string float64 float64 string "string option"
  | FlowBasedScreen string string string "string option"

fun run_scoring_call ::
  "'a pheno_score \<Rightarrow> scoring_call \<Rightarrow> 'a PooledScreens \<Rightarrow> 'a scoring_result" where
  "run_scoring_call rps (DrugScreen t0 untreated treated db_untreated db_treated lvl run_name) s =
     calculateDrugScreen rps t0 untreated treated db_untreated db_treated lvl run_name s"
| "run_scoring_call rps (FlowBasedScreen low_bin high_bin lvl run_name) s =
     calculateFlowBasedScreen rps low_bin high_bin lvl run_name s"

text \<open>The key of \<open>phenotypes\<close> a call assigns to.\<close>

fun run_key :: "scoring_call \<Rightarrow> string" where
  "run_key (DrugScreen t0 untreated treated db_untreated db_treated lvl run_name) =
     default_run_name run_name lvl"
| "run_key (FlowBasedScreen low_bin high_bin lvl run_name) = default_run_name run_name lvl"

text \<open>Calls made one after the other on the same object; a caller that catches the
  exception of one call goes on with the object as that call left it.\<close>

fun run_scoring_calls ::
  "'a pheno_score \<Rightarrow> scoring_call list \<Rightarrow> 'a PooledScreens \<Rightarrow> 'a PooledScreens" where
  "run_scoring_calls rps [] s = s"
| "run_scoring_calls rps (c # cs) s = run_scoring_calls rps cs (after (run_scoring_call rps c s))"

section \<open>Properties\<close>

subsection \<open>Auxiliary facts\<close>

lemma add_fresh:
  "name \<notin> set (phenotype_names s) \<Longrightarrow>
   add_phenotype_results name s = (None, s\<lparr>phenotype_names := phenotype_names s @ [name]\<rparr>)"
  by (simp add: add_phenotype_results_def)

lemma add_registered:
  "name \<in> set (phenotype_names s) \<Longrightarrow>
   add_phenotype_results name s = (Some (already_exists name), s)"
  by (simp add: add_phenotype_results_def)

lemma labels_differ:
  "''gamma:'' @ a \<noteq> ''tau:'' @ b" "''gamma:'' @ a \<noteq> ''rho:'' @ c"
  "''tau:'' @ b \<noteq> ''rho:'' @ c" "''tau:'' @ b \<noteq> ''gamma:'' @ a"
  "''rho:'' @ c \<noteq> ''gamma:'' @ a" "''rho:'' @ c \<noteq> ''tau:'' @ b"
  by simp_all

text \<open>Subtraction of equal finite floats.\<close>

lemma bit_length_numeral:
  "bit_length 0 = 0" "bit_length (Suc 0) = 1"
  "bit_length (numeral n) = Suc (bit_length (numeral n div 2))"
  by (simp_all add: bit_length.simps [of 0] bit_length.simps [of "Suc 0"]
        bit_length.simps [of "numeral n"])

lemma fl_eq_zero_diff:
  "fl_eq x y \<Longrightarrow> is_finite x \<Longrightarrow> fl_abs (fl_sub x y) = fl_zero"
  by (cases x; cases y) (auto simp add: fl_zero_def split: prod.splits)

lemma fl_eq_finite: "fl_eq x y \<Longrightarrow> is_finite x \<Longrightarrow> is_finite y"
  by (cases x; cases y) simp_all

text \<open>Rounding: \<open>1e16 - 1.0\<close> is \<open>1e16\<close> again (the exact difference needs 54
  bits and lies halfway between two floats), and the largest float minus its negative
  overflows to infinity.\<close>

lemma fl_sub_rounds:
  "fl_sub (float_of_nat 10000000000000000) (float_of_nat 1) = Finite False 5000000000000000 1"
  by (simp add: float_of_nat_def exact_diff_def signed_def round_to_float_def Let_def
        bit_length_numeral)

lemma fl_sub_overflows:
  "fl_sub (Finite False (2 ^ 53 - 1) 971) (Finite True (2 ^ 53 - 1) 971) = Infinity False"
  by (simp add: exact_diff_def signed_def round_to_float_def Let_def bit_length_numeral)

text \<open>What \<open>calculateDrugScreen\<close> does when a computation raises.\<close>

lemma drug_gamma_raises:
  assumes "rps (adata s) (gamma_call s t0 untreated dbu lvl) = Inl e"
  shows "calculateDrugScreen rps t0 untreated treated dbu dbt lvl run_name s =
           ([gamma_call s t0 untreated dbu lvl], Some e, s)"
  using assms by (simp add: calculateDrugScreen_def traced_def)

lemma drug_tau_raises:
  assumes "rps (adata s) (gamma_call s t0 untreated dbu lvl) = Inr g"
    and "rps (adata s) (tau_call s t0 treated dbt lvl) = Inl e"
  shows "calculateDrugScreen rps t0 untreated treated dbu dbt lvl run_name s =
           ([gamma_call s t0 untreated dbu lvl, tau_call s t0 treated dbt lvl], Some e, s)"
  using assms by (simp add: calculateDrugScreen_def traced_def split: prod.splits)

lemma drug_rho_raises:
  assumes "rps (adata s) (gamma_call s t0 untreated dbu lvl) = Inr g"
    and "rps (adata s) (tau_call s t0 treated dbt lvl) = Inr ta"
    and "rps (adata s) (rho_call s untreated treated dbu dbt lvl) = Inl e"
  shows "calculateDrugScreen rps t0 untreated treated dbu dbt lvl run_name s =
           ([gamma_call s t0 untreated dbu lvl, tau_call s t0 treated dbt lvl,
             rho_call s untreated treated dbu dbt lvl], Some e, s)"
  using assms by (simp add: calculateDrugScreen_def traced_def split: prod.splits)

text \<open>What it does when all three return: the bundle is stored, then the names are
  registered in order up to the first one that is already there.\<close>

lemma drug_computed:
  assumes "rps (adata s) (gamma_call s t0 untreated dbu lvl) = Inr (gn, g)"
    and "rps (adata s) (tau_call s t0 treated dbt lvl) = Inr (tn, ta)"
    and "rps (adata s) (rho_call s untreated treated dbu dbt lvl) = Inr (rn, r)"
  shows "calculateDrugScreen rps t0 untreated treated dbu dbt lvl run_name s =
           ([gamma_call s t0 untreated dbu lvl, tau_call s t0 treated dbt lvl,
             rho_call s untreated treated dbu dbt lvl],
            (case dropWhile (\<lambda>l. l \<notin> set (phenotype_names s))
                    [''gamma:'' @ gn, ''tau:'' @ tn, ''rho:'' @ rn] of
               [] \<Rightarrow> None | l # _ \<Rightarrow> Some (already_exists l)),
            s\<lparr>phenotypes := (phenotypes s)(default_run_name run_name lvl \<mapsto>
                  [(''gamma:'' @ gn, g), (''tau:'' @ tn, ta), (''rho:'' @ rn, r)]),
              phenotype_names := phenotype_names s @
                  takeWhile (\<lambda>l. l \<notin> set (phenotype_names s))
                    [''gamma:'' @ gn, ''tau:'' @ tn, ''rho:'' @ rn]\<rparr>)"
  using assms
  by (simp add: calculateDrugScreen_def traced_def Let_def add_phenotype_results_def)

lemma flow_raises:
  assumes "rps (adata s) (delta_call s low_bin high_bin lvl) = Inl e"
  shows "calculateFlowBasedScreen rps low_bin high_bin lvl run_name s =
           ([delta_call s low_bin high_bin lvl], Some e, s)"
  using assms by (simp add: calculateFlowBasedScreen_def traced_def)

lemma flow_computed:
  assumes "rps (adata s) (delta_call s low_bin high_bin lvl) = Inr (dn, d)"
  shows "calculateFlowBasedScreen rps low_bin high_bin lvl run_name s =
           ([delta_call s low_bin high_bin lvl],
            (if ''delta:'' @ dn \<in> set (phenotype_names s)
             then Some (already_exists (''delta:'' @ dn)) else None),
            s\<lparr>phenotypes := (phenotypes s)(default_run_name run_name lvl \<mapsto>
                  [(''delta:'' @ dn, d)]),
              phenotype_names := phenotype_names s @
                  (if ''delta:'' @ dn \<in> set (phenotype_names s) then [] else [''delta:'' @ dn])\<rparr>)"
  using assms
  by (simp add: calculateFlowBasedScreen_def traced_def Let_def add_phenotype_results_def)

text \<open>The sample objects, evaluated.\<close>

lemmas sample_defs =
  first_drug_call_def drug_screen_state_def second_drug_call_def repeated_drug_call_def
  flow_after_drug_def two_run_state_def flow_screen_state_def
  missing_t0_call_def infinite_rates_call_def strict_runPhenoScore_def traced_def
  calculateDrugScreen_def calculateFlowBasedScreen_def add_phenotype_results_def
  gamma_call_def tau_call_def rho_call_def delta_call_def default_run_name_def
  sample_runPhenoScore_def new_screen_def init_def after_def raised_def calls_made_def

lemma drug_screen_state_names:
  "phenotype_names drug_screen_state =
     [''gamma:T0_vs_untreated'', ''tau:T0_vs_treated'', ''rho:untreated_vs_treated'']"
  by (simp add: sample_defs)

lemma drug_screen_state_phenotypes:
  "phenotypes drug_screen_state =
     [''sgRNA'' \<mapsto> [(''gamma:T0_vs_untreated'', sample_table),
                    (''tau:T0_vs_treated'', sample_table),
                    (''rho:untreated_vs_treated'', sample_table)]]"
  by (simp add: sample_defs)

lemma drug_screen_state_adata: "adata drug_screen_state = ()"
  by simp


subsection \<open>Registration and its failures\<close>

text \<open>
  C1 (as the code has it). A scoring call that fails because a PhenoScore computation
  raises leaves the object as it was. When the computations return, the call first
  assigns the bundle to \<open>phenotypes[run_name]\<close> and then registers its names in order
  (gamma, tau, rho; delta): the names before the first one already registered are
  appended, and the call raises for that one; it returns normally, with all its names
  appended, when none is registered. There is no rollback.
\<close>

theorem scoring_call_outcome:
  fixes rps :: "'a pheno_score" and s :: "'a PooledScreens"
    and t0 untreated treated lvl low_bin high_bin :: string
    and dbu dbt :: float64 and run_name :: "string option"
  defines "N \<equiv> phenotype_names s"
  defines "D \<equiv> calculateDrugScreen rps t0 untreated treated dbu dbt lvl run_name s"
  defines "F \<equiv> calculateFlowBasedScreen rps low_bin high_bin lvl run_name s"
  shows
    "(case (rps (adata s) (gamma_call s t0 untreated dbu lvl),
            rps (adata s) (tau_call s t0 treated dbt lvl),
            rps (adata s) (rho_call s untreated treated dbu dbt lvl)) of
        (Inr (gn, g), Inr (tn, ta), Inr (rn, r)) \<Rightarrow>
          phenotypes (after D) = (phenotypes s)(default_run_name run_name lvl \<mapsto>
              [(''gamma:'' @ gn, g), (''tau:'' @ tn, ta), (''rho:'' @ rn, r)]) \<and>
          phenotype_names (after D) =
              N @ takeWhile (\<lambda>l. l \<notin> set N) [''gamma:'' @ gn, ''tau:'' @ tn, ''rho:'' @ rn] \<and>
          raised D =
              (case dropWhile (\<lambda>l. l \<notin> set N) [''gamma:'' @ gn, ''tau:'' @ tn, ''rho:'' @ rn] of
                 [] \<Rightarrow> None | l # _ \<Rightarrow> Some (already_exists l))
      | _ \<Rightarrow> raised D \<noteq> None \<and> after D = s) \<and>
     (case rps (adata s) (delta_call s low_bin high_bin lvl) of
        Inr (dn, d) \<Rightarrow>
          phenotypes (after F) = (phenotypes s)(default_run_name run_name lvl \<mapsto>
              [(''delta:'' @ dn, d)]) \<and>
          phenotype_names (after F) =
              N @ takeWhile (\<lambda>l. l \<notin> set N) [''delta:'' @ dn] \<and>
          raised F =
              (case dropWhile (\<lambda>l. l \<notin> set N) [''delta:'' @ dn] of
                 [] \<Rightarrow> None | l # _ \<Rightarrow> Some (already_exists l))
      | Inl e \<Rightarrow> raised F = Some e \<and> after F = s)"
proof -
  let ?a = "rps (adata s) (gamma_call s t0 untreated dbu lvl)"
  let ?b = "rps (adata s) (tau_call s t0 treated dbt lvl)"
  let ?c = "rps (adata s) (rho_call s untreated treated dbu dbt lvl)"
  have drug: "case (?a, ?b, ?c) of
        (Inr (gn, g), Inr (tn, ta), Inr (rn, r)) \<Rightarrow>
          phenotypes (after D) = (phenotypes s)(default_run_name run_name lvl \<mapsto>
              [(''gamma:'' @ gn, g), (''tau:'' @ tn, ta), (''rho:'' @ rn, r)]) \<and>
          phenotype_names (after D) =
              N @ takeWhile (\<lambda>l. l \<notin> set N) [''gamma:'' @ gn, ''tau:'' @ tn, ''rho:'' @ rn] \<and>
          raised D =
              (case dropWhile (\<lambda>l. l \<notin> set N) [''gamma:'' @ gn, ''tau:'' @ tn, ''rho:'' @ rn] of
                 [] \<Rightarrow> None | l # _ \<Rightarrow> Some (already_exists l))
      | _ \<Rightarrow> raised D \<noteq> None \<and> after D = s"
  proof (cases ?a)
    case (Inl e)
    then show ?thesis
      unfolding D_def by (simp add: drug_gamma_raises raised_def after_def)
  next
    case a: (Inr x)
    show ?thesis
    proof (cases ?b)
      case (Inl e)
      with a show ?thesis
        unfolding D_def
        by (simp add: drug_tau_raises raised_def after_def split: prod.splits)
    next
      case b: (Inr y)
      show ?thesis
      proof (cases ?c)
        case (Inl e)
        with a b show ?thesis
          unfolding D_def
          by (simp add: drug_rho_raises raised_def after_def split: prod.splits)
      next
        case c: (Inr z)
        obtain gn g tn ta rn r where xyz: "x = (gn, g)" "y = (tn, ta)" "z = (rn, r)"
          by (cases x, cases y, cases z) auto
        from drug_computed [of rps s t0 untreated dbu lvl gn g treated dbt tn ta rn r run_name]
          a b c xyz
        have "D = ([gamma_call s t0 untreated dbu lvl, tau_call s t0 treated dbt lvl,
             rho_call s untreated treated dbu dbt lvl],
            (case dropWhile (\<lambda>l. l \<notin> set N)
                    [''gamma:'' @ gn, ''tau:'' @ tn, ''rho:'' @ rn] of
               [] \<Rightarrow> None | l # _ \<Rightarrow> Some (already_exists l)),
            s\<lparr>phenotypes := (phenotypes s)(default_run_name run_name lvl \<mapsto>
                  [(''gamma:'' @ gn, g), (''tau:'' @ tn, ta), (''rho:'' @ rn, r)]),
              phenotype_names := N @
                  takeWhile (\<lambda>l. l \<notin> set N)
                    [''gamma:'' @ gn, ''tau:'' @ tn, ''rho:'' @ rn]\<rparr>)"
          unfolding D_def N_def by simp
        then have "phenotypes (after D) = (phenotypes s)(default_run_name run_name lvl \<mapsto>
              [(''gamma:'' @ gn, g), (''tau:'' @ tn, ta), (''rho:'' @ rn, r)])"
          and "phenotype_names (after D) =
              N @ takeWhile (\<lambda>l. l \<notin> set N) [''gamma:'' @ gn, ''tau:'' @ tn, ''rho:'' @ rn]"
          and "raised D =
              (case dropWhile (\<lambda>l. l \<notin> set N) [''gamma:'' @ gn, ''tau:'' @ tn, ''rho:'' @ rn] of
                 [] \<Rightarrow> None | l # _ \<Rightarrow> Some (already_exists l))"
          by (simp_all add: after_def raised_def)
        with a b c xyz show ?thesis by (simp only: sum.case prod.case)
      qed
    qed
  qed
  have flow: "case rps (adata s) (delta_call s low_bin high_bin lvl) of
        Inr (dn, d) \<Rightarrow>
          phenotypes (after F) = (phenotypes s)(default_run_name run_name lvl \<mapsto>
              [(''delta:'' @ dn, d)]) \<and>
          phenotype_names (after F) =
              N @ takeWhile (\<lambda>l. l \<notin> set N) [''delta:'' @ dn] \<and>
          raised F =
              (case dropWhile (\<lambda>l. l \<notin> set N) [''delta:'' @ dn] of
                 [] \<Rightarrow> None | l # _ \<Rightarrow> Some (already_exists l))
      | Inl e \<Rightarrow> raised F = Some e \<and> after F = s"
  proof (cases "rps (adata s) (delta_call s low_bin high_bin lvl)")
    case (Inl e)
    then show ?thesis
      unfolding F_def by (simp add: flow_raises raised_def after_def)
  next
    case (Inr x)
    obtain dn d where x: "x = (dn, d)" by (cases x)
    with Inr show ?thesis
      unfolding F_def N_def by (simp add: flow_computed raised_def after_def)
  qed
  from drug flow show ?thesis by (rule conjI)
qed


theorem scoring_call_outcome_witness:
  "raised second_drug_call = Some (already_exists ''tau:T0_vs_treated'') \<and>
   phenotype_names (after second_drug_call) =
     [''gamma:T0_vs_untreated'', ''tau:T0_vs_treated'', ''rho:untreated_vs_treated'',
      ''gamma:T0_vs_vehicle''] \<and>
   phenotypes (after second_drug_call) ''second'' =
     Some [(''gamma:T0_vs_vehicle'', sample_table), (''tau:T0_vs_treated'', sample_table),
           (''rho:vehicle_vs_treated'', sample_table)]"
  using scoring_call_outcome [where rps = "sample_runPhenoScore sample_table"
      and s = drug_screen_state and ?t0.0 = "''T0''" and untreated = "''vehicle''"
      and treated = "''treated''" and dbu = "float_of_nat 1" and dbt = "float_of_nat 2" and lvl = "''sgRNA''"
      and run_name = "Some ''second''" and low_bin = "''low''" and high_bin = "''high''"]
  by (simp add: second_drug_call_def drug_screen_state_names
        sample_runPhenoScore_def gamma_call_def tau_call_def rho_call_def delta_call_def
        default_run_name_def)

text \<open>
  The claim as the spec words it fails: in \<open>second_drug_call\<close> the tau name is a
  duplicate and the call raises for it, yet the gamma name has been appended and the
  mapping has gained the entry of the run.
\<close>

theorem drug_screen_atomicity_counterexample:
  "''tau:T0_vs_treated'' \<in> set (phenotype_names drug_screen_state) \<and>
   raised second_drug_call = Some (already_exists ''tau:T0_vs_treated'') \<and>
   phenotype_names (after second_drug_call) =
     phenotype_names drug_screen_state @ [''gamma:T0_vs_vehicle''] \<and>
   phenotypes drug_screen_state ''second'' = None \<and>
   phenotypes (after second_drug_call) ''second'' \<noteq> None"
  by (simp add: sample_defs)

subsection \<open>Duplicate names\<close>

text \<open>
  C2. A name that is in \<open>phenotype_names\<close> cannot be registered again:
  \<open>_add_phenotype_results\<close> raises for it and leaves the object alone; a flow screen
  whose delta name it is raises for it; a drug screen one of whose three names it is
  raises for the first of its names that is registered. The run name plays no part.
\<close>

theorem duplicate_name_raises:
  fixes rps :: "'a pheno_score" and s :: "'a PooledScreens"
  assumes "name \<in> set (phenotype_names s)"
  shows
    "add_phenotype_results name s = (Some (already_exists name), s) \<and>
     (\<forall>dn d. rps (adata s) (delta_call s low_bin high_bin lvl) = Inr (dn, d) \<and>
         name = ''delta:'' @ dn \<longrightarrow>
         raised (calculateFlowBasedScreen rps low_bin high_bin lvl run_name s) =
           Some (already_exists name)) \<and>
     (\<forall>gn g tn ta rn r.
         rps (adata s) (gamma_call s t0 untreated dbu lvl) = Inr (gn, g) \<and>
         rps (adata s) (tau_call s t0 treated dbt lvl) = Inr (tn, ta) \<and>
         rps (adata s) (rho_call s untreated treated dbu dbt lvl) = Inr (rn, r) \<and>
         name \<in> {''gamma:'' @ gn, ''tau:'' @ tn, ''rho:'' @ rn} \<longrightarrow>
         (\<exists>l \<in> {''gamma:'' @ gn, ''tau:'' @ tn, ''rho:'' @ rn}.
            l \<in> set (phenotype_names s) \<and>
            raised (calculateDrugScreen rps t0 untreated treated dbu dbt lvl run_name s) =
              Some (already_exists l)))"
proof (intro conjI allI impI)
  show "add_phenotype_results name s = (Some (already_exists name), s)"
    using assms by (rule add_registered)
next
  fix dn d
  assume "rps (adata s) (delta_call s low_bin high_bin lvl) = Inr (dn, d) \<and>
          name = ''delta:'' @ dn"
  with assms
  show "raised (calculateFlowBasedScreen rps low_bin high_bin lvl run_name s) =
          Some (already_exists name)"
    by (simp add: flow_computed raised_def)
next
  fix gn g tn ta rn r
  assume h: "rps (adata s) (gamma_call s t0 untreated dbu lvl) = Inr (gn, g) \<and>
         rps (adata s) (tau_call s t0 treated dbt lvl) = Inr (tn, ta) \<and>
         rps (adata s) (rho_call s untreated treated dbu dbt lvl) = Inr (rn, r) \<and>
         name \<in> {''gamma:'' @ gn, ''tau:'' @ tn, ''rho:'' @ rn}"
  then have D: "raised (calculateDrugScreen rps t0 untreated treated dbu dbt lvl run_name s) =
      (case dropWhile (\<lambda>l. l \<notin> set (phenotype_names s))
                    [''gamma:'' @ gn, ''tau:'' @ tn, ''rho:'' @ rn] of
               [] \<Rightarrow> None | l # _ \<Rightarrow> Some (already_exists l))"
    by (simp only: drug_computed raised_def fst_conv snd_conv)
  from h assms
  have "''gamma:'' @ gn \<in> set (phenotype_names s) \<or> ''tau:'' @ tn \<in> set (phenotype_names s)
        \<or> ''rho:'' @ rn \<in> set (phenotype_names s)"
    by auto
  then show "\<exists>l \<in> {''gamma:'' @ gn, ''tau:'' @ tn, ''rho:'' @ rn}.
            l \<in> set (phenotype_names s) \<and>
            raised (calculateDrugScreen rps t0 untreated treated dbu dbt lvl run_name s) =
              Some (already_exists l)"
    unfolding D by auto
qed

theorem duplicate_name_raises_witness:
  "''rho:untreated_vs_treated'' \<in> set (phenotype_names drug_screen_state) \<and>
   add_phenotype_results ''rho:untreated_vs_treated'' drug_screen_state =
     (Some (already_exists ''rho:untreated_vs_treated''), drug_screen_state) \<and>
   (\<exists>l \<in> {''gamma:T0_vs_untreated'', ''tau:T0_vs_treated'', ''rho:untreated_vs_treated''}.
      raised repeated_drug_call = Some (already_exists l))"
proof -
  have h: "''rho:untreated_vs_treated'' \<in> set (phenotype_names drug_screen_state)"
    by (simp add: drug_screen_state_names)
  from duplicate_name_raises [OF h, where rps = "sample_runPhenoScore sample_table"
      and ?t0.0 = "''T0''" and untreated = "''untreated''" and treated = "''treated''"
      and dbu = "float_of_nat 1" and dbt = "float_of_nat 2" and lvl = "''sgRNA''" and run_name = "Some ''again''"
      and low_bin = "''low''" and high_bin = "''high''"]
  have "add_phenotype_results ''rho:untreated_vs_treated'' drug_screen_state =
          (Some (already_exists ''rho:untreated_vs_treated''), drug_screen_state)"
    and "\<exists>l \<in> {''gamma:T0_vs_untreated'', ''tau:T0_vs_treated'', ''rho:untreated_vs_treated''}.
      raised repeated_drug_call = Some (already_exists l)"
    by (auto simp add: repeated_drug_call_def sample_runPhenoScore_def
          gamma_call_def tau_call_def rho_call_def delta_call_def)
  with h show ?thesis by simp
qed


subsection \<open>The registry over its lifetime\<close>

lemma drug_screen_effect:
  fixes rps :: "'a pheno_score" and s :: "'a PooledScreens"
    and t0 untreated treated lvl :: string and dbu dbt :: float64
    and run_name :: "string option"
  defines "s' \<equiv> after (calculateDrugScreen rps t0 untreated treated dbu dbt lvl run_name s)"
  shows "prefix (phenotype_names s) (phenotype_names s')"
    and "k \<noteq> default_run_name run_name lvl \<Longrightarrow> phenotypes s' k = phenotypes s k"
    and "dom (phenotypes s) \<subseteq> dom (phenotypes s')"
proof -
  let ?a = "rps (adata s) (gamma_call s t0 untreated dbu lvl)"
  let ?b = "rps (adata s) (tau_call s t0 treated dbt lvl)"
  let ?c = "rps (adata s) (rho_call s untreated treated dbu dbt lvl)"
  have "s' = s \<or> (\<exists>bundle ns. s' = s\<lparr>phenotypes :=
              (phenotypes s)(default_run_name run_name lvl \<mapsto> bundle),
            phenotype_names := phenotype_names s @ ns\<rparr>)"
  proof (cases ?a)
    case (Inl e)
    then show ?thesis unfolding s'_def by (simp add: drug_gamma_raises after_def)
  next
    case a: (Inr x)
    show ?thesis
    proof (cases ?b)
      case (Inl e)
      with a show ?thesis unfolding s'_def by (simp add: drug_tau_raises after_def)
    next
      case b: (Inr y)
      show ?thesis
      proof (cases ?c)
        case (Inl e)
        with a b show ?thesis unfolding s'_def by (simp add: drug_rho_raises after_def)
      next
        case c: (Inr z)
        obtain gn g tn ta rn r where "x = (gn, g)" "y = (tn, ta)" "z = (rn, r)"
          by (cases x, cases y, cases z) auto
        with a b c show ?thesis
          unfolding s'_def by (simp only: drug_computed after_def snd_conv) blast
      qed
    qed
  qed
  then show "prefix (phenotype_names s) (phenotype_names s')"
    and "k \<noteq> default_run_name run_name lvl \<Longrightarrow> phenotypes s' k = phenotypes s k"
    and "dom (phenotypes s) \<subseteq> dom (phenotypes s')"
    by auto
qed

lemma flow_screen_effect:
  fixes rps :: "'a pheno_score" and s :: "'a PooledScreens"
    and low_bin high_bin lvl :: string and run_name :: "string option"
  defines "s' \<equiv> after (calculateFlowBasedScreen rps low_bin high_bin lvl run_name s)"
  shows "prefix (phenotype_names s) (phenotype_names s')"
    and "k \<noteq> default_run_name run_name lvl \<Longrightarrow> phenotypes s' k = phenotypes s k"
    and "dom (phenotypes s) \<subseteq> dom (phenotypes s')"
proof -
  have "s' = s \<or> (\<exists>bundle ns. s' = s\<lparr>phenotypes :=
              (phenotypes s)(default_run_name run_name lvl \<mapsto> bundle),
            phenotype_names := phenotype_names s @ ns\<rparr>)"
  proof (cases "rps (adata s) (delta_call s low_bin high_bin lvl)")
    case (Inl e)
    then show ?thesis unfolding s'_def by (simp add: flow_raises after_def)
  next
    case (Inr x)
    obtain dn d where "x = (dn, d)" by (cases x)
    with Inr show ?thesis
      unfolding s'_def by (simp only: flow_computed after_def snd_conv) blast
  qed
  then show "prefix (phenotype_names s) (phenotype_names s')"
    and "k \<noteq> default_run_name run_name lvl \<Longrightarrow> phenotypes s' k = phenotypes s k"
    and "dom (phenotypes s) \<subseteq> dom (phenotypes s')"
    by auto
qed

lemma scoring_call_effect:
  fixes rps :: "'a pheno_score" and s :: "'a PooledScreens"
  shows "prefix (phenotype_names s) (phenotype_names (after (run_scoring_call rps c s)))"
    and "k \<noteq> run_key c \<Longrightarrow> phenotypes (after (run_scoring_call rps c s)) k = phenotypes s k"
    and "dom (phenotypes s) \<subseteq> dom (phenotypes (after (run_scoring_call rps c s)))"
  by (cases c; simp add: drug_screen_effect flow_screen_effect)+

lemma scoring_calls_effect:
  fixes rps :: "'a pheno_score" and s :: "'a PooledScreens"
  shows "prefix (phenotype_names s) (phenotype_names (run_scoring_calls rps cs s)) \<and>
         (\<forall>k. k \<notin> run_key ` set cs \<longrightarrow> phenotypes (run_scoring_calls rps cs s) k = phenotypes s k) \<and>
         dom (phenotypes s) \<subseteq> dom (phenotypes (run_scoring_calls rps cs s))"
proof (induction cs arbitrary: s)
  case Nil
  show ?case by simp
next
  case (Cons c cs)
  let ?s1 = "after (run_scoring_call rps c s)"
  note ih = Cons.IH [of ?s1]
  have 1: "prefix (phenotype_names s) (phenotype_names (run_scoring_calls rps (c # cs) s))"
    using ih scoring_call_effect(1) [of s rps c] by (auto intro: prefix_order.trans)
  have 2: "\<forall>k. k \<notin> run_key ` set (c # cs) \<longrightarrow>
            phenotypes (run_scoring_calls rps (c # cs) s) k = phenotypes s k"
    using ih scoring_call_effect(2) [of _ c rps s] by simp
  have 3: "dom (phenotypes s) \<subseteq> dom (phenotypes (run_scoring_calls rps (c # cs) s))"
    using ih scoring_call_effect(3) [of s rps c] by (simp del: dom_eq_empty_conv) blast
  from 1 2 3 show ?case by blast
qed

lemma getPhenotypeScores_keeps:
  "snd (getPhenotypeScores ann run_name score_name threshold ctrl_label
          target_col pvalue_column score_column s) = s"
  by (simp add: getPhenotypeScores_def Let_def split: option.splits sum.splits)

lemma run_scoring_calls_snoc:
  "run_scoring_calls rps (cs @ [c]) s =
     after (run_scoring_call rps c (run_scoring_calls rps cs s))"
  by (induction cs arbitrary: s) simp_all

text \<open>The mapping after one call: the bundle under the run name when the computations
  returned, the object untouched when one of them raised.\<close>

lemma drug_screen_assigns:
  fixes rps :: "'a pheno_score" and s :: "'a PooledScreens"
  shows "case (rps (adata s) (gamma_call s t0 untreated dbu lvl),
               rps (adata s) (tau_call s t0 treated dbt lvl),
               rps (adata s) (rho_call s untreated treated dbu dbt lvl)) of
           (Inr (gn, g), Inr (tn, ta), Inr (rn, r)) \<Rightarrow>
             phenotypes (after (calculateDrugScreen rps t0 untreated treated dbu dbt lvl
                 run_name s)) =
               (phenotypes s)(default_run_name run_name lvl \<mapsto>
                 [(''gamma:'' @ gn, g), (''tau:'' @ tn, ta), (''rho:'' @ rn, r)])
         | _ \<Rightarrow> after (calculateDrugScreen rps t0 untreated treated dbu dbt lvl
                 run_name s) = s"
  by (auto simp add: drug_gamma_raises drug_tau_raises drug_rho_raises drug_computed
        after_def split: sum.splits prod.splits)

lemma flow_screen_assigns:
  fixes rps :: "'a pheno_score" and s :: "'a PooledScreens"
  shows "case rps (adata s) (delta_call s low_bin high_bin lvl) of
           Inr (dn, d) \<Rightarrow>
             phenotypes (after (calculateFlowBasedScreen rps low_bin high_bin lvl run_name s)) =
               (phenotypes s)(default_run_name run_name lvl \<mapsto> [(''delta:'' @ dn, d)])
         | Inl e \<Rightarrow> after (calculateFlowBasedScreen rps low_bin high_bin lvl run_name s) = s"
  by (auto simp add: flow_raises flow_computed after_def split: sum.splits prod.splits)

text \<open>
  C3 (as the code has it). The registry is empty at construction. A scoring call whose
  PhenoScore computations all return assigns its bundle to \<open>phenotypes\<close> under its
  run name (the score level when the run name is unset): the mapping afterwards is the
  one before with that one key set to the new bundle, so an earlier entry under the key
  is replaced and every other entry stays. A call in which a computation raises leaves
  the object as it was. Calls made one after the other act in turn, each on the object
  the one before left. Over any such sequence, whether the calls return or raise, the
  names registered before are still there, in their places, with new ones only
  appended; no run name leaves \<open>phenotypes\<close>; and the entry of every run name that no
  call of the sequence assigns to is unchanged. \<open>_add_phenotype_results\<close> and
  \<open>getPhenotypeScores\<close> leave \<open>phenotypes\<close> alone.
\<close>

theorem registry_append_only:
  fixes rps :: "'a pheno_score" and s :: "'a PooledScreens" and a :: 'a
    and t0 untreated treated lvl low_bin high_bin :: string
    and dbu dbt :: float64 and run_name :: "string option"
  defines "D \<equiv> run_scoring_call rps (DrugScreen t0 untreated treated dbu dbt lvl run_name) s"
  defines "F \<equiv> run_scoring_call rps (FlowBasedScreen low_bin high_bin lvl run_name) s"
  shows
    "phenotypes (init a tr te n) = Map.empty \<and> phenotype_names (init a tr te n) = [] \<and>
     (case (rps (adata s) (gamma_call s t0 untreated dbu lvl),
            rps (adata s) (tau_call s t0 treated dbt lvl),
            rps (adata s) (rho_call s untreated treated dbu dbt lvl)) of
        (Inr (gn, g), Inr (tn, ta), Inr (rn, r)) \<Rightarrow>
          phenotypes (after D) = (phenotypes s)(default_run_name run_name lvl \<mapsto>
              [(''gamma:'' @ gn, g), (''tau:'' @ tn, ta), (''rho:'' @ rn, r)])
      | _ \<Rightarrow> after D = s) \<and>
     (case rps (adata s) (delta_call s low_bin high_bin lvl) of
        Inr (dn, d) \<Rightarrow>
          phenotypes (after F) = (phenotypes s)(default_run_name run_name lvl \<mapsto>
              [(''delta:'' @ dn, d)])
      | Inl e \<Rightarrow> after F = s) \<and>
     run_scoring_calls rps [] s = s \<and>
     run_scoring_calls rps (cs @ [c]) s =
       after (run_scoring_call rps c (run_scoring_calls rps cs s)) \<and>
     prefix (phenotype_names s) (phenotype_names (run_scoring_calls rps cs s)) \<and>
     dom (phenotypes s) \<subseteq> dom (phenotypes (run_scoring_calls rps cs s)) \<and>
     (\<forall>k. k \<notin> run_key ` set cs \<longrightarrow>
          phenotypes (run_scoring_calls rps cs s) k = phenotypes s k) \<and>
     phenotypes (snd (add_phenotype_results name s)) = phenotypes s \<and>
     snd (getPhenotypeScores ann run_name' score_name threshold ctrl_label
            target_col pvalue_column score_column s) = s"
proof -
  have d: "case (rps (adata s) (gamma_call s t0 untreated dbu lvl),
            rps (adata s) (tau_call s t0 treated dbt lvl),
            rps (adata s) (rho_call s untreated treated dbu dbt lvl)) of
        (Inr (gn, g), Inr (tn, ta), Inr (rn, r)) \<Rightarrow>
          phenotypes (after D) = (phenotypes s)(default_run_name run_name lvl \<mapsto>
              [(''gamma:'' @ gn, g), (''tau:'' @ tn, ta), (''rho:'' @ rn, r)])
      | _ \<Rightarrow> after D = s"
    unfolding D_def run_scoring_call.simps by (rule drug_screen_assigns)
  have f: "case rps (adata s) (delta_call s low_bin high_bin lvl) of
        Inr (dn, d) \<Rightarrow>
          phenotypes (after F) = (phenotypes s)(default_run_name run_name lvl \<mapsto>
              [(''delta:'' @ dn, d)])
      | Inl e \<Rightarrow> after F = s"
    unfolding F_def run_scoring_call.simps by (rule flow_screen_assigns)
  have rest: "phenotypes (init a tr te n) = Map.empty \<and> phenotype_names (init a tr te n) = [] \<and>
     run_scoring_calls rps [] s = s \<and>
     run_scoring_calls rps (cs @ [c]) s =
       after (run_scoring_call rps c (run_scoring_calls rps cs s)) \<and>
     phenotypes (snd (add_phenotype_results name s)) = phenotypes s \<and>
     snd (getPhenotypeScores ann run_name' score_name threshold ctrl_label
            target_col pvalue_column score_column s) = s"
    by (simp add: init_def getPhenotypeScores_keeps add_phenotype_results_def
          run_scoring_calls_snoc)
  from d f rest scoring_calls_effect [of s rps cs] show ?thesis by blast
qed

theorem registry_append_only_witness:
  "phenotypes (after (run_scoring_call (sample_runPhenoScore sample_table)
       (FlowBasedScreen ''low'' ''high'' ''sgRNA'' None) drug_screen_state)) =
     (phenotypes drug_screen_state)(''sgRNA'' \<mapsto> [(''delta:low_vs_high'', sample_table)]) \<and>
   prefix [''gamma:T0_vs_untreated'', ''tau:T0_vs_treated'', ''rho:untreated_vs_treated'']
     (phenotype_names (run_scoring_calls (sample_runPhenoScore sample_table)
        [FlowBasedScreen ''low'' ''high'' ''sgRNA'' (Some ''flow'')] drug_screen_state)) \<and>
   phenotypes (run_scoring_calls (sample_runPhenoScore sample_table)
        [FlowBasedScreen ''low'' ''high'' ''sgRNA'' (Some ''flow'')] drug_screen_state) ''sgRNA'' =
     Some [(''gamma:T0_vs_untreated'', sample_table), (''tau:T0_vs_treated'', sample_table),
           (''rho:untreated_vs_treated'', sample_table)]"
  using registry_append_only [where rps = "sample_runPhenoScore sample_table"
      and s = drug_screen_state and low_bin = "''low''" and high_bin = "''high''"
      and lvl = "''sgRNA''" and run_name = None
      and cs = "[FlowBasedScreen ''low'' ''high'' ''sgRNA'' (Some ''flow'')]"]
  by (simp add: drug_screen_state_names drug_screen_state_phenotypes default_run_name_def
        sample_runPhenoScore_def delta_call_def gamma_call_def tau_call_def rho_call_def)

text \<open>
  The claim as the spec words it fails: both calls below return normally, and the
  second, made at the same score level with the run name left out, replaces the entry
  that the first stored under \<open>sgRNA\<close>; the gamma score stays registered by name and
  is no longer in the mapping.
\<close>

theorem registry_entry_replaced_counterexample:
  "raised first_drug_call = None \<and> raised flow_after_drug = None \<and>
   phenotypes drug_screen_state ''sgRNA'' =
     Some [(''gamma:T0_vs_untreated'', sample_table), (''tau:T0_vs_treated'', sample_table),
           (''rho:untreated_vs_treated'', sample_table)] \<and>
   phenotypes (after flow_after_drug) ''sgRNA'' = Some [(''delta:low_vs_high'', sample_table)] \<and>
   ''gamma:T0_vs_untreated'' \<in> set (phenotype_names (after flow_after_drug))"
  by (simp add: sample_defs)


subsection \<open>Retrieval\<close>




lemma flow_screen_state_names: "phenotype_names flow_screen_state = [''delta:low_vs_high'']"
  by (simp add: sample_defs)

lemma flow_screen_state_phenotypes:
  "phenotypes flow_screen_state = [''sgRNA'' \<mapsto> [(''delta:low_vs_high'', gene_table)]]"
  by (simp add: sample_defs)

text \<open>
  C4. The stored table of \<open>flow_screen_state\<close> has the columns \<open>gene_symbol\<close>,
  \<open>ttest pvalue\<close> and \<open>score\<close>. Called with \<open>target_col='gene_symbol'\<close>, the method
  keeps these three and then looks for a column labelled \<open>target\<close> among them to index
  by: the call ends in \<open>KeyError\<close>, whatever the annotator. The override of the
  docstring is not honoured.
\<close>

theorem target_col_override_raises:
  "fst (getPhenotypeScores ann ''sgRNA'' ''delta:low_vs_high'' 5 ''negCtrl''
          ''gene_symbol'' ''ttest pvalue'' ''score'' flow_screen_state) =
     Inl (KeyError ''target'')"
  by (simp add: getPhenotypeScores_def flow_screen_state_names flow_screen_state_phenotypes
        loc_columns_def set_index_def column_labels_def gene_table_def)


text \<open>The annotated table of the spec's scenario, with \<open>threshold=2\<close> and the
  cutoff 0.05: the control guides score 1 and -1, so their mean is 0 and their standard
  deviation 1, and GeneA alone is a hit.\<close>

lemma scenario_annotated:
  "fst (getPhenotypeScores (ann_score_df (1 / 20) ''zscore'' ''hit_call'') ''sgRNA''
          ''rho:untreated_vs_treated'' 2 ''negCtrl'' ''target'' ''ttest pvalue'' ''score''
          drug_screen_state) =
     Inr \<lparr>index_name = Some ''target'',
          index_vals = [Str ''GeneA'', Str ''GeneB'', Str ''negCtrl'', Str ''negCtrl''],
          columns =
            [(''pvalue'', [Num (1 / 100), Num (1 / 5), Num (9 / 10), Num (4 / 5)]),
             (''score'', [Num 3, Num (- 1), Num 1, Num (- 1)]),
             (''zscore'', [Num 3, Num (- 1), Num 1, Num (- 1)]),
             (''hit_call'', [Bool True, Bool False, Bool False, Bool False])]\<rparr>"
  by (simp add: getPhenotypeScores_def drug_screen_state_names drug_screen_state_phenotypes
        loc_columns_def set_index_def rename_column_def column_labels_def sample_table_def
        ann_score_df_def mean_def std_dev_def)




subsection \<open>The PhenoScore computations requested\<close>

text \<open>
  C6 (as the code has it). \<open>calculateDrugScreen\<close> requests its PhenoScore computations
  in the order gamma, tau, rho, each after the one before has returned, with these
  arguments: gamma from t0 to untreated with the growth rate \<open>db_untreated\<close>, tau from
  t0 to treated with \<open>db_treated\<close>, rho from untreated to treated with the absolute
  value of the float difference of the two rates, each with the \<open>n_reps\<close>,
  \<open>transformation\<close> and \<open>test\<close> of the object and the score level of the call. A
  computation that raises ends the call with its exception and the object untouched, so
  that one or two computations are made when gamma or tau raises; when gamma and tau
  return, the computations are exactly these three, and the bundle stored is made of
  what they returned.
\<close>

theorem drug_screen_core_calls:
  fixes rps :: "'a pheno_score" and s :: "'a PooledScreens"
    and t0 untreated treated lvl :: string and db_untreated db_treated :: float64
    and run_name :: "string option"
  defines "gamma \<equiv> \<lparr>cond1 = t0, cond2 = untreated, growth_rate = Some db_untreated,
      call_n_reps = n_reps s, call_transformation = transformation s,
      call_test = test s, score_level = lvl\<rparr>"
  defines "tau \<equiv> \<lparr>cond1 = t0, cond2 = treated, growth_rate = Some db_treated,
      call_n_reps = n_reps s, call_transformation = transformation s,
      call_test = test s, score_level = lvl\<rparr>"
  defines "rho \<equiv> \<lparr>cond1 = untreated, cond2 = treated,
      growth_rate = Some (fl_abs (fl_sub db_untreated db_treated)),
      call_n_reps = n_reps s, call_transformation = transformation s,
      call_test = test s, score_level = lvl\<rparr>"
  defines "D \<equiv> calculateDrugScreen rps t0 untreated treated db_untreated db_treated
      lvl run_name s"
  shows
    "calls_made D =
       (case rps (adata s) gamma of
          Inl e \<Rightarrow> [gamma]
        | Inr g \<Rightarrow> (case rps (adata s) tau of
                     Inl e \<Rightarrow> [gamma, tau]
                   | Inr ta \<Rightarrow> [gamma, tau, rho])) \<and>
     (case rps (adata s) gamma of
        Inl e \<Rightarrow> raised D = Some e \<and> after D = s
      | Inr (gn, g) \<Rightarrow>
     (case rps (adata s) tau of
        Inl e \<Rightarrow> raised D = Some e \<and> after D = s
      | Inr (tn, ta) \<Rightarrow>
     (case rps (adata s) rho of
        Inl e \<Rightarrow> raised D = Some e \<and> after D = s
      | Inr (rn, r) \<Rightarrow>
          phenotypes (after D) = (phenotypes s)(default_run_name run_name lvl \<mapsto>
            [(''gamma:'' @ gn, g), (''tau:'' @ tn, ta), (''rho:'' @ rn, r)]))))"
proof -
  have g: "gamma = gamma_call s t0 untreated db_untreated lvl"
    and t: "tau = tau_call s t0 treated db_treated lvl"
    and r: "rho = rho_call s untreated treated db_untreated db_treated lvl"
    by (simp_all add: gamma_def tau_def rho_def gamma_call_def tau_call_def rho_call_def)
  have calls: "calls_made D =
       (case rps (adata s) gamma of
          Inl e \<Rightarrow> [gamma]
        | Inr g \<Rightarrow> (case rps (adata s) tau of
                     Inl e \<Rightarrow> [gamma, tau]
                   | Inr ta \<Rightarrow> [gamma, tau, rho]))"
    unfolding g t r D_def
    by (simp add: calculateDrugScreen_def traced_def calls_made_def Let_def
          split: sum.splits prod.splits option.splits)
  have out: "case rps (adata s) gamma of
        Inl e \<Rightarrow> raised D = Some e \<and> after D = s
      | Inr (gn, g) \<Rightarrow>
     (case rps (adata s) tau of
        Inl e \<Rightarrow> raised D = Some e \<and> after D = s
      | Inr (tn, ta) \<Rightarrow>
     (case rps (adata s) rho of
        Inl e \<Rightarrow> raised D = Some e \<and> after D = s
      | Inr (rn, r) \<Rightarrow>
          phenotypes (after D) = (phenotypes s)(default_run_name run_name lvl \<mapsto>
            [(''gamma:'' @ gn, g), (''tau:'' @ tn, ta), (''rho:'' @ rn, r)])))"
    unfolding g t r D_def
    by (auto simp add: drug_gamma_raises drug_tau_raises drug_rho_raises drug_computed
          after_def raised_def split: sum.splits prod.splits)
  from calls out show ?thesis by (rule conjI)
qed

theorem drug_screen_core_calls_witness:
  "calls_made first_drug_call =
     [\<lparr>cond1 = ''T0'', cond2 = ''untreated'', growth_rate = Some (Finite False 1 0),
       call_n_reps = 3, call_transformation = ''log2(x+1)'', call_test = ''ttest'',
       score_level = ''sgRNA''\<rparr>,
      \<lparr>cond1 = ''T0'', cond2 = ''treated'', growth_rate = Some (Finite False 2 0),
       call_n_reps = 3, call_transformation = ''log2(x+1)'', call_test = ''ttest'',
       score_level = ''sgRNA''\<rparr>,
      \<lparr>cond1 = ''untreated'', cond2 = ''treated'', growth_rate = Some (Finite False 1 0),
       call_n_reps = 3, call_transformation = ''log2(x+1)'', call_test = ''ttest'',
       score_level = ''sgRNA''\<rparr>] \<and>
   phenotypes (after first_drug_call) ''sgRNA'' =
     Some [(''gamma:T0_vs_untreated'', sample_table), (''tau:T0_vs_treated'', sample_table),
           (''rho:untreated_vs_treated'', sample_table)]"
  using drug_screen_core_calls [where rps = "sample_runPhenoScore sample_table"
      and s = "new_screen ()" and ?t0.0 = "''T0''" and untreated = "''untreated''"
      and treated = "''treated''" and db_untreated = "float_of_nat 1"
      and db_treated = "float_of_nat 2" and lvl = "''sgRNA''" and run_name = None]
  by (simp add: first_drug_call_def sample_runPhenoScore_def new_screen_def init_def
        float_of_nat_def exact_diff_def signed_def round_to_float_def Let_def
        bit_length_numeral default_run_name_def)

text \<open>
  The claim as the spec words it fails: on a matrix without the condition \<open>T0\<close> the
  gamma computation raises, the call ends with that exception, and one computation has
  been made, not three.
\<close>

theorem missing_condition_one_call_counterexample:
  "calls_made missing_t0_call =
     [\<lparr>cond1 = ''T0'', cond2 = ''untreated'', growth_rate = Some (Finite False 1 0),
       call_n_reps = 3, call_transformation = ''log2(x+1)'', call_test = ''ttest'',
       score_level = ''sgRNA''\<rparr>] \<and>
   length (calls_made missing_t0_call) \<noteq> 3 \<and>
   raised missing_t0_call = Some (OtherError ''MissingConditionError'')"
  by (simp add: sample_defs float_of_nat_def)

text \<open>
  C7 (as the code has it). With equal finite doubling rates the rho computation is
  requested with the growth rate 0: when gamma and tau have returned, the third call is
  made, from untreated to treated, its growth rate is exactly \<open>+0.0\<close>, and what
  \<open>runPhenoScore\<close> does at that divisor is what the method does (its exception ends
  the call, its table is stored as rho). Nothing in the method checks the divisor or
  replaces it.
\<close>

theorem equal_rates_zero_divisor:
  fixes rps :: "'a pheno_score" and s :: "'a PooledScreens"
    and t0 untreated treated lvl :: string and db_untreated db_treated :: float64
    and run_name :: "string option"
  defines "zero_rho \<equiv> \<lparr>cond1 = untreated, cond2 = treated, growth_rate = Some fl_zero,
      call_n_reps = n_reps s, call_transformation = transformation s,
      call_test = test s, score_level = lvl\<rparr>"
  defines "D \<equiv> calculateDrugScreen rps t0 untreated treated db_untreated db_treated
      lvl run_name s"
  assumes "fl_eq db_untreated db_treated" and "is_finite db_untreated"
    and "rps (adata s) (gamma_call s t0 untreated db_untreated lvl) = Inr (gn, g)"
    and "rps (adata s) (tau_call s t0 treated db_treated lvl) = Inr (tn, ta)"
  shows "calls_made D =
           [gamma_call s t0 untreated db_untreated lvl, tau_call s t0 treated db_treated lvl,
            zero_rho] \<and>
         (case rps (adata s) zero_rho of
            Inl e \<Rightarrow> raised D = Some e \<and> after D = s
          | Inr (rn, r) \<Rightarrow>
              phenotypes (after D) = (phenotypes s)(default_run_name run_name lvl \<mapsto>
                [(''gamma:'' @ gn, g), (''tau:'' @ tn, ta), (''rho:'' @ rn, r)]))"
proof -
  have z: "zero_rho = rho_call s untreated treated db_untreated db_treated lvl"
    using assms(3,4) by (simp add: zero_rho_def rho_call_def fl_eq_zero_diff)
  have calls: "calls_made D =
           [gamma_call s t0 untreated db_untreated lvl, tau_call s t0 treated db_treated lvl,
            zero_rho]"
    unfolding z D_def using assms(5,6)
    by (simp add: calculateDrugScreen_def traced_def calls_made_def Let_def
          split: sum.splits prod.splits option.splits)
  have out: "case rps (adata s) zero_rho of
            Inl e \<Rightarrow> raised D = Some e \<and> after D = s
          | Inr (rn, r) \<Rightarrow>
              phenotypes (after D) = (phenotypes s)(default_run_name run_name lvl \<mapsto>
                [(''gamma:'' @ gn, g), (''tau:'' @ tn, ta), (''rho:'' @ rn, r)])"
    unfolding z D_def using assms(5,6)
    by (auto simp add: drug_rho_raises drug_computed after_def raised_def
          split: sum.splits prod.splits)
  from calls out show ?thesis by (rule conjI)
qed

theorem equal_rates_zero_divisor_witness:
  "fl_eq (Finite False 3 (- 1)) (Finite False 6 (- 2)) \<and>
   map growth_rate (calls_made (calculateDrugScreen (sample_runPhenoScore sample_table)
      ''T0'' ''untreated'' ''treated'' (Finite False 3 (- 1)) (Finite False 6 (- 2))
      ''sgRNA'' None (new_screen ()))) =
     [Some (Finite False 3 (- 1)), Some (Finite False 6 (- 2)), Some (Finite False 0 0)] \<and>
   phenotypes (after (calculateDrugScreen (sample_runPhenoScore sample_table)
      ''T0'' ''untreated'' ''treated'' (Finite False 3 (- 1)) (Finite False 6 (- 2))
      ''sgRNA'' None (new_screen ()))) ''sgRNA'' =
     Some [(''gamma:T0_vs_untreated'', sample_table), (''tau:T0_vs_treated'', sample_table),
           (''rho:untreated_vs_treated'', sample_table)]"
proof -
  have e: "fl_eq (Finite False 3 (- 1)) (Finite False 6 (- 2))"
    by (simp add: exact_diff_def signed_def)
  have f: "is_finite (Finite False 3 (- 1))" by simp
  have g: "sample_runPhenoScore sample_table (adata (new_screen ()))
             (gamma_call (new_screen ()) ''T0'' ''untreated'' (Finite False 3 (- 1)) ''sgRNA'') =
           Inr (''T0_vs_untreated'', sample_table)"
    by (simp add: sample_runPhenoScore_def gamma_call_def)
  have t: "sample_runPhenoScore sample_table (adata (new_screen ()))
             (tau_call (new_screen ()) ''T0'' ''treated'' (Finite False 6 (- 2)) ''sgRNA'') =
           Inr (''T0_vs_treated'', sample_table)"
    by (simp add: sample_runPhenoScore_def tau_call_def)
  from equal_rates_zero_divisor [where rps = "sample_runPhenoScore sample_table"
      and s = "new_screen ()" and db_untreated = "Finite False 3 (- 1)"
      and db_treated = "Finite False 6 (- 2)"
      and ?t0.0 = "''T0''" and untreated = "''untreated''" and treated = "''treated''"
      and lvl = "''sgRNA''" and run_name = None, OF e f g t] e
  show ?thesis
    by (simp add: sample_runPhenoScore_def gamma_call_def tau_call_def fl_zero_def
          default_run_name_def)
qed

text \<open>
  The claim as the spec words it fails for rates that are not finite: the two rates
  \<open>float('inf')\<close> are equal, their difference is NaN, and the rho computation is
  requested with the growth rate NaN.
\<close>

theorem infinite_rates_nan_divisor_counterexample:
  "fl_eq (Infinity False) (Infinity False) \<and>
   map growth_rate (calls_made infinite_rates_call) =
     [Some (Infinity False), Some (Infinity False), Some NaN] \<and>
   NaN \<noteq> fl_zero \<and>
   raised infinite_rates_call = None"
  by (simp add: sample_defs fl_zero_def)



subsection \<open>Retrieval and the registry\<close>

text \<open>
  C9. \<open>getPhenotypeScores\<close>, whether it returns a table or raises, leaves the object
  as it was: the mapping \<open>phenotypes\<close> and the list \<open>phenotype_names\<close> are the same
  before and after.
\<close>

theorem getPhenotypeScores_registry_unchanged:
  fixes s :: "'a PooledScreens"
  shows
    "snd (getPhenotypeScores ann run_name score_name threshold ctrl_label
            target_col pvalue_column score_column s) = s \<and>
     phenotypes (snd (getPhenotypeScores ann run_name score_name threshold ctrl_label
            target_col pvalue_column score_column s)) = phenotypes s \<and>
     phenotype_names (snd (getPhenotypeScores ann run_name score_name threshold ctrl_label
            target_col pvalue_column score_column s)) = phenotype_names s"
  by (simp add: getPhenotypeScores_keeps)

text \<open>
  C10. The not-found check looks at \<open>phenotype_names\<close> only. A score name that is
  registered passes it under every run name; when the run name has no entry, or its
  entry does not hold the score name, the call ends in the \<open>KeyError\<close> of the lookup
  (of the run name in the first case, of the score name in the second), not in the
  not-found error.
\<close>

theorem registered_elsewhere_key_error:
  fixes s :: "'a PooledScreens"
  assumes "score_name \<in> set (phenotype_names s)"
    and "phenotypes s run_name = None \<or>
         (\<exists>bundle. phenotypes s run_name = Some bundle \<and> map_of bundle score_name = None)"
  shows "fst (getPhenotypeScores ann run_name score_name threshold ctrl_label
                target_col pvalue_column score_column s) =
           Inl (KeyError (if phenotypes s run_name = None then run_name else score_name)) \<and>
         fst (getPhenotypeScores ann run_name score_name threshold ctrl_label
                target_col pvalue_column score_column s) \<noteq> Inl (not_found score_name)"
  using assms
  by (auto simp add: getPhenotypeScores_def not_found_def)

theorem registered_elsewhere_key_error_witness:
  "''rho:untreated_vs_treated'' \<in> set (phenotype_names two_run_state) \<and>
   phenotypes two_run_state ''flow'' = Some [(''delta:low_vs_high'', sample_table)] \<and>
   fst (getPhenotypeScores_default (ann_score_df (1 / 20) ''zscore'' ''hit_call'') ''flow''
          ''rho:untreated_vs_treated'' two_run_state) =
     Inl (KeyError ''rho:untreated_vs_treated'')"
proof -
  have n: "''rho:untreated_vs_treated'' \<in> set (phenotype_names two_run_state)"
    by (simp add: sample_defs)
  have p: "phenotypes two_run_state ''flow'' = Some [(''delta:low_vs_high'', sample_table)]"
    by (simp add: sample_defs)
  then have q: "phenotypes two_run_state ''flow'' = None \<or>
         (\<exists>bundle. phenotypes two_run_state ''flow'' = Some bundle \<and>
            map_of bundle ''rho:untreated_vs_treated'' = None)"
    by simp
  from registered_elsewhere_key_error [OF n q,
      of "ann_score_df (1 / 20) ''zscore'' ''hit_call''" 5 "''negCtrl''"
      "''target''" "''ttest pvalue''" "''score''"] n p
  show ?thesis by (simp add: getPhenotypeScores_default_def)
qed


end
